theory Spec2Isabelle
  imports Complex_Main "HOL-Library.AList"
begin

section \<open>Python values used by the 277CA parser and the reconciliation engine\<close>

text \<open>
  The Python code works on dictionaries that are only ever read with \<open>.get(key)\<close> and
  written by assignment to a fixed key. Such a dictionary is a record of optional fields:
  a field is \<open>None\<close> when the key is missing or holds Python's \<open>None\<close> (\<open>.get\<close> cannot
  tell the two apart). String-valued fields hold strings, whose characters are code
  points below 256.
\<close>

text \<open>The exceptions that the modelled statements can raise.\<close>

datatype py_error = ValueError | OverflowError | IndexError

text \<open>
  A Python float is a finite float, given by its exact rational value, or one of the
  three values that are not finite. Not every rational is a float; what holds of every
  rational holds of every finite float. The two zeros of Python are one value here:
  both are false and both truncate to 0.
\<close>

datatype pyfloat = Finite rat | NaN | PosInf | NegInf

text \<open>
  The operations on floats that round are operations of the Python library, not of this
  repository, and are parameters: \<open>float(text)\<close> (\<open>None\<close> where it raises
  \<open>ValueError\<close>), the division \<open>a / b\<close> of two integers with \<open>b\<close> not zero, the product
  of two floats, and \<open>sum\<close> of a sequence of floats.
\<close>

record float_lib =
  float_of_text :: "string \<Rightarrow> pyfloat option"
  true_div :: "nat \<Rightarrow> nat \<Rightarrow> pyfloat"
  float_mul :: "pyfloat \<Rightarrow> pyfloat \<Rightarrow> pyfloat"
  float_sum :: "pyfloat list \<Rightarrow> pyfloat"

text \<open>Truthiness of an optional string and of an optional float (\<open>if x:\<close>).\<close>

fun truthy_str :: "string option \<Rightarrow> bool" where
  "truthy_str None = False"
| "truthy_str (Some s) = (s \<noteq> [])"

fun truthy_float :: "pyfloat option \<Rightarrow> bool" where
  "truthy_float None = False"
| "truthy_float (Some f) = (f \<noteq> Finite 0)"

text \<open>\<open>a or b\<close> on optional floats: \<open>a\<close> when it is truthy, otherwise \<open>b\<close>.\<close>

definition py_or_float :: "pyfloat option \<Rightarrow> pyfloat option \<Rightarrow> pyfloat option" where
  "py_or_float a b = (if truthy_float a then a else b)"

text \<open>\<open>xs[i]\<close> for an index that is not negative: \<open>IndexError\<close> out of range.\<close>

definition py_index :: "'a list \<Rightarrow> nat \<Rightarrow> py_error + 'a" where
  "py_index xs i = (if i < length xs then Inr (xs ! i) else Inl IndexError)"

text \<open>Running one statement after another, as long as none raises.\<close>

definition and_then :: "py_error + 'a \<Rightarrow> ('a \<Rightarrow> py_error + 'b) \<Rightarrow> py_error + 'b" where
  "and_then m f = (case m of Inl e \<Rightarrow> Inl e | Inr v \<Rightarrow> f v)"

text \<open>\<open>s.split(c)\<close> for a one-character separator: there is always at least one part.\<close>

fun split_on :: "char \<Rightarrow> string \<Rightarrow> string list" where
  "split_on c [] = [[]]"
| "split_on c (x # xs) =
     (if x = c then [] # split_on c xs
      else (case split_on c xs of
              [] \<Rightarrow> [[x]]
            | p # ps \<Rightarrow> (x # p) # ps))"

text \<open>\<open>sep.join(parts)\<close>.\<close>

fun join :: "string \<Rightarrow> string list \<Rightarrow> string" where
  "join sep [] = []"
| "join sep [p] = p"
| "join sep (p # q # ps) = p @ sep @ join sep (q # ps)"

text \<open>
  \<open>int(x)\<close> on a float truncates towards zero, and raises \<open>ValueError\<close> on the float
  that is not a number and \<open>OverflowError\<close> on the infinite ones; \<open>str(n)\<close> writes an
  integer in decimal.
\<close>

fun py_int :: "pyfloat \<Rightarrow> py_error + int" where
  "py_int (Finite r) = Inr (if 0 \<le> r then \<lfloor>r\<rfloor> else \<lceil>r\<rceil>)"
| "py_int NaN = Inl ValueError"
| "py_int PosInf = Inl OverflowError"
| "py_int NegInf = Inl OverflowError"

definition digit_char :: "nat \<Rightarrow> char" where
  "digit_char d = ''0123456789'' ! d"

fun str_nat :: "nat \<Rightarrow> string" where
  "str_nat n = (if n < 10 then [digit_char n] else str_nat (n div 10) @ [digit_char (n mod 10)])"

definition str_int :: "int \<Rightarrow> string" where
  "str_int i = (if i < 0 then CHR ''-'' # str_nat (nat (- i)) else str_nat (nat i))"

section \<open>Transactions: the dictionaries handed from the parsers to the engine\<close>

text \<open>
  One record covers the keys that the 277CA parser writes (the eleven keys of
  \<open>_init_transaction\<close>) and the further keys that the engine reads from a rejection or
  from an 835 claim (\<open>transaction_date\<close>, \<open>charged_amount\<close>, \<open>payment_date\<close>,
  \<open>paid_amount\<close>, \<open>claim_status\<close>). The texts are strings and the amounts are floats,
  as the parser of this repository produces them.
\<close>

record transaction =
  claim_id :: "string option"
  patient_id :: "string option"
  patient_name :: "string option"
  date_of_service :: "string option"
  billed_amount :: "pyfloat option"
  status_category :: "string option"
  status_code :: "string option"
  rejection_reason :: "string option"
  provider_npi :: "string option"
  payer_claim_control_number :: "string option"
  trace_number :: "string option"
  transaction_date :: "string option"
  charged_amount :: "pyfloat option"
  payment_date :: "string option"
  paid_amount :: "pyfloat option"
  claim_status :: "string option"

section \<open>The reconciliation engine (src/core/reconciliation.py)\<close>

record rejection_entry =
  rejection_date :: "string option"
  rej_patient_id :: "string option"
  rej_patient_name :: "string option"
  rej_date_of_service :: "string option"
  rej_billed_amount :: "pyfloat option"
  rej_rejection_reason :: "string option"
  rej_status_code :: "string option"
  rej_trace_number :: "string option"
  found_in_835 :: bool
  resubmission_date :: "string option"

record payment_entry =
  pay_payment_date :: "string option"
  pay_patient_id :: "string option"
  pay_paid_amount :: "pyfloat option"
  pay_claim_status :: "string option"

text \<open>
  A Python dict keeps its keys in insertion order, and assigning to an existing key keeps
  the key's position: an association list with \<open>AList.update\<close>.
\<close>

record engine =
  lookback_days :: int
  rejections_cache :: "(string \<times> rejection_entry) list"
  payments_cache :: "(string \<times> payment_entry) list"

definition new_engine :: "int \<Rightarrow> engine" where
  "new_engine lookback =
     \<lparr>lookback_days = lookback, rejections_cache = [], payments_cache = []\<rparr>"

subsection \<open>\<open>_create_match_key\<close>\<close>

text \<open>The date after the normalisation step of \<open>_create_match_key\<close>.\<close>

definition normalize_date :: "string option \<Rightarrow> string option" where
  "normalize_date dos =
     (case dos of
        None \<Rightarrow> None
      | Some d \<Rightarrow>
          if d \<noteq> [] \<and> CHR ''-'' \<in> set d then
            (let date_parts = split_on CHR ''-'' d
             in if length date_parts = 2 \<and> length (date_parts ! 0) = 8
                then Some (date_parts ! 0) else Some d)
          else Some d)"

text \<open>The last line: the joined parts, when there are at least two.\<close>

definition finish_key :: "string list \<Rightarrow> string option" where
  "finish_key key_parts = (if length key_parts \<ge> 2 then Some (join ''|'' key_parts) else None)"

text \<open>
  \<open>float(amount)\<close> leaves a float as it is; \<open>int\<close> of it may raise, and nothing in
  \<open>_create_match_key\<close> or in its callers catches that.
\<close>

definition create_match_key :: "transaction \<Rightarrow> py_error + string option" where
  "create_match_key t =
     (let amount = py_or_float (billed_amount t) (charged_amount t)
      in case patient_id t of
           None \<Rightarrow> Inr None
         | Some pid \<Rightarrow>
             if pid = [] then Inr None
             else
               (let dos = normalize_date (date_of_service t);
                    key_parts0 = [pid];
                    key_parts1 = (case dos of
                                    None \<Rightarrow> key_parts0
                                  | Some d \<Rightarrow> if d \<noteq> [] then key_parts0 @ [d] else key_parts0)
                in if truthy_float amount then
                     (case amount of
                        None \<Rightarrow> Inr (finish_key key_parts1)
                      | Some a \<Rightarrow>
                          and_then (py_int a)
                            (\<lambda>n. Inr (finish_key (key_parts1 @ [str_int n]))))
                   else Inr (finish_key key_parts1)))"

subsection \<open>\<open>add_277ca_rejections\<close> and \<open>add_835_payments\<close>\<close>

text \<open>
  The body of the loop of \<open>add_277ca_rejections\<close>, for one rejection: the engine after
  it, or the exception that \<open>_create_match_key\<close> raised, before any change.
\<close>

definition add_rejection :: "engine \<Rightarrow> transaction \<Rightarrow> py_error + engine" where
  "add_rejection s rejection =
     and_then (create_match_key rejection)
       (\<lambda>key. case key of
          None \<Rightarrow> Inr s
        | Some match_key \<Rightarrow>
            (if match_key \<noteq> [] then
               Inr (s\<lparr>rejections_cache :=
                       AList.update match_key
                         \<lparr>rejection_date = transaction_date rejection,
                          rej_patient_id = patient_id rejection,
                          rej_patient_name = patient_name rejection,
                          rej_date_of_service = date_of_service rejection,
                          rej_billed_amount = billed_amount rejection,
                          rej_rejection_reason = rejection_reason rejection,
                          rej_status_code = status_code rejection,
                          rej_trace_number = trace_number rejection,
                          found_in_835 = False,
                          resubmission_date = None\<rparr>
                         (rejections_cache s)\<rparr>)
             else Inr s))"

text \<open>
  \<open>add_277ca_rejections\<close> receives the list that \<open>parsed_277ca.get("rejections", [])\<close>
  yields and runs the loop body over it in order. The result is the engine as the call
  leaves it and the exception that ended the call, if one did: an exception leaves the
  changes of the earlier rounds in place.
\<close>

fun add_277ca_rejections :: "engine \<Rightarrow> transaction list \<Rightarrow> engine \<times> py_error option" where
  "add_277ca_rejections s [] = (s, None)"
| "add_277ca_rejections s (rejection # rest) =
     (case add_rejection s rejection of
        Inl e \<Rightarrow> (s, Some e)
      | Inr s' \<Rightarrow> add_277ca_rejections s' rest)"

text \<open>The body of the loop of \<open>add_835_payments\<close>, for one claim.\<close>

definition add_payment :: "engine \<Rightarrow> transaction \<Rightarrow> py_error + engine" where
  "add_payment s claim =
     and_then (create_match_key claim)
       (\<lambda>key. case key of
          None \<Rightarrow> Inr s
        | Some match_key \<Rightarrow>
            (if match_key \<noteq> [] then
               (let s1 = s\<lparr>payments_cache :=
                            AList.update match_key
                              \<lparr>pay_payment_date = payment_date claim,
                               pay_patient_id = patient_id claim,
                               pay_paid_amount = paid_amount claim,
                               pay_claim_status = claim_status claim\<rparr>
                              (payments_cache s)\<rparr>
                in case map_of (rejections_cache s1) match_key of
                     None \<Rightarrow> Inr s1
                   | Some e \<Rightarrow>
                       Inr (s1\<lparr>rejections_cache :=
                                 AList.update match_key
                                   (e\<lparr>found_in_835 := True,
                                      resubmission_date := payment_date claim\<rparr>)
                                   (rejections_cache s1)\<rparr>))
             else Inr s))"

fun add_835_payments :: "engine \<Rightarrow> transaction list \<Rightarrow> engine \<times> py_error option" where
  "add_835_payments s [] = (s, None)"
| "add_835_payments s (claim # rest) =
     (case add_payment s claim of
        Inl e \<Rightarrow> (s, Some e)
      | Inr s' \<Rightarrow> add_835_payments s' rest)"

subsection \<open>\<open>find_unsubmitted_claims\<close>\<close>

text \<open>
  A \<open>datetime\<close> is the number of microseconds since the first instant of the year 1; the
  library has the instants before the year 10000. \<open>datetime.now()\<close> and
  \<open>datetime.strptime\<close> belong to the library: the current time is the parameter
  \<open>current_date\<close>, and \<open>strptime\<close> is a parameter that maps a date text and a format to
  an instant, or to \<open>None\<close> where the library raises \<open>ValueError\<close>.
\<close>

record alert =
  severity :: string
  match_key :: string
  alert_patient_id :: "string option"
  alert_patient_name :: "string option"
  alert_date_of_service :: "string option"
  alert_billed_amount :: "pyfloat option"
  alert_rejection_date :: "string option"
  alert_rejection_reason :: "string option"
  days_since_rejection :: int
  estimated_revenue_loss :: "pyfloat option"
  action_required :: string

text \<open>One day in microseconds, and the first instant that is no \<open>datetime\<close> any more.\<close>

definition day_us :: int where
  "day_us = 86400000000"

definition datetime_end :: int where
  "datetime_end = 3652059 * day_us"

text \<open>
  \<open>timedelta(days=d)\<close> raises \<open>OverflowError\<close> beyond 999999999 days, and a \<open>datetime\<close>
  minus a \<open>timedelta\<close> raises it when the result is no \<open>datetime\<close>.
\<close>

definition timedelta_days :: "int \<Rightarrow> py_error + int" where
  "timedelta_days d = (if \<bar>d\<bar> \<le> 999999999 then Inr (d * day_us) else Inl OverflowError)"

definition datetime_minus :: "int \<Rightarrow> int \<Rightarrow> py_error + int" where
  "datetime_minus dt delta =
     (if 0 \<le> dt - delta \<and> dt - delta < datetime_end then Inr (dt - delta)
      else Inl OverflowError)"

definition parse_rejection_date :: "(string \<Rightarrow> string \<Rightarrow> int option) \<Rightarrow> string \<Rightarrow> int option" where
  "parse_rejection_date strptime rejection_date_str =
     (if CHR ''-'' \<in> set rejection_date_str
      then strptime rejection_date_str ''%Y-%m-%d''
      else strptime rejection_date_str ''%Y%m%d'')"

text \<open>
  The body of the loop of \<open>find_unsubmitted_claims\<close>: the alerts one cache item adds.
  The difference of two instants is a \<open>timedelta\<close> within the library's range, and its
  \<open>days\<close> are the whole days, rounded down.
\<close>

definition alerts_of_item ::
  "(string \<Rightarrow> string \<Rightarrow> int option) \<Rightarrow> int \<Rightarrow> int \<Rightarrow> string \<times> rejection_entry \<Rightarrow> alert list" where
  "alerts_of_item strptime current_date threshold_date item =
     (case item of (key, rejection) \<Rightarrow>
        if found_in_835 rejection then []
        else if \<not> truthy_str (rejection_date rejection) then []
        else
          (case rejection_date rejection of
             None \<Rightarrow> []
           | Some rejection_date_str \<Rightarrow>
               (case parse_rejection_date strptime rejection_date_str of
                  None \<Rightarrow> []
                | Some rejection_dt \<Rightarrow>
                    if rejection_dt < threshold_date then
                      (let days = (current_date - rejection_dt) div day_us
                       in [\<lparr>severity = (if days > 45 then ''HIGH'' else ''MEDIUM''),
                            match_key = key,
                            alert_patient_id = rej_patient_id rejection,
                            alert_patient_name = rej_patient_name rejection,
                            alert_date_of_service = rej_date_of_service rejection,
                            alert_billed_amount = rej_billed_amount rejection,
                            alert_rejection_date = rejection_date rejection,
                            alert_rejection_reason = rej_rejection_reason rejection,
                            days_since_rejection = days,
                            estimated_revenue_loss = rej_billed_amount rejection,
                            action_required =
                              ''Review rejection reason and resubmit corrected claim. '' @
                              ''This claim will NEVER appear in 835 until resubmitted.''\<rparr>])
                    else [])))"

text \<open>
  The threshold date is computed before the loop. The alerts are sorted by
  \<open>days_since_rejection\<close>, largest first; Python's sort is stable also with
  \<open>reverse=True\<close>, as is \<open>sort_key\<close> on the negated key.
\<close>

definition find_unsubmitted_claims ::
  "(string \<Rightarrow> string \<Rightarrow> int option) \<Rightarrow> int \<Rightarrow> engine \<Rightarrow> int \<Rightarrow> py_error + alert list" where
  "find_unsubmitted_claims strptime current_date s days_threshold =
     and_then (timedelta_days days_threshold)
       (\<lambda>delta. and_then (datetime_minus current_date delta)
          (\<lambda>threshold_date.
             (let alerts = concat (map (alerts_of_item strptime current_date threshold_date)
                                     (rejections_cache s))
              in Inr (sort_key (\<lambda>a. - days_since_rejection a) alerts))))"

subsection \<open>\<open>get_reconciliation_summary\<close>\<close>

record reconciliation_summary =
  total_rejections_tracked :: nat
  successfully_resubmitted :: nat
  still_unsubmitted :: int
  resubmission_rate :: pyfloat
  potential_revenue_at_risk :: pyfloat
  tracking_period_days :: int

text \<open>\<open>float(r.get("billed_amount", 0) or 0)\<close>.\<close>

definition amount_or_zero :: "pyfloat option \<Rightarrow> pyfloat" where
  "amount_or_zero a =
     (if truthy_float a then (case a of None \<Rightarrow> Finite 0 | Some f \<Rightarrow> f) else Finite 0)"

text \<open>
  The integers 0 and 100 of the source stand here as the floats of the same value.
\<close>

definition get_reconciliation_summary :: "float_lib \<Rightarrow> engine \<Rightarrow> reconciliation_summary" where
  "get_reconciliation_summary lib s =
     (let total_rejections = length (rejections_cache s);
          resubmitted = length (filter (\<lambda>r. found_in_835 r) (map snd (rejections_cache s)));
          unsubmitted = int total_rejections - int resubmitted;
          potential_loss =
            float_sum lib
              (map (\<lambda>r. amount_or_zero (rej_billed_amount r))
                 (filter (\<lambda>r. \<not> found_in_835 r) (map snd (rejections_cache s))))
      in \<lparr>total_rejections_tracked = total_rejections,
          successfully_resubmitted = resubmitted,
          still_unsubmitted = unsubmitted,
          resubmission_rate =
            (if total_rejections > 0
             then float_mul lib (true_div lib resubmitted total_rejections) (Finite 100)
             else Finite 0),
          potential_revenue_at_risk = potential_loss,
          tracking_period_days = lookback_days s\<rparr>)"

subsection \<open>Histories of engine calls\<close>

text \<open>
  The two ingestion operations are the only ones that change an engine; a reachable
  state is what a sequence of them, whether they return or raise, makes of a new engine.
\<close>

datatype engine_call = Add_277ca_rejections "transaction list" | Add_835_payments "transaction list"

fun engine_step :: "engine \<Rightarrow> engine_call \<Rightarrow> engine" where
  "engine_step s (Add_277ca_rejections rs) = fst (add_277ca_rejections s rs)"
| "engine_step s (Add_835_payments cs) = fst (add_835_payments s cs)"

definition run_calls :: "engine \<Rightarrow> engine_call list \<Rightarrow> engine" where
  "run_calls s calls = foldl engine_step s calls"

section \<open>The 277CA parser (src/parsers/x12_277ca_parser.py)\<close>

subsection \<open>\<open>_parse_segments\<close>\<close>

record segment =
  seg_id :: string
  elements :: "string list"

text \<open>
  \<open>str.strip()\<close> removes the white space of Python from both ends; below 256 these are
  the code points 9 to 13, 28 to 32, 133 and 160.
\<close>

definition is_space :: "char \<Rightarrow> bool" where
  "is_space c =
     (let n = (of_char c :: nat)
      in (9 \<le> n \<and> n \<le> 13) \<or> (28 \<le> n \<and> n \<le> 32) \<or> n = 133 \<or> n = 160)"

definition strip :: "string \<Rightarrow> string" where
  "strip s = rev (dropWhile is_space (rev (dropWhile is_space s)))"

text \<open>
  The body of the loop of \<open>_parse_segments\<close>: the segments one line adds. The list that
  \<open>split\<close> returns is never empty, so \<open>elements[0]\<close> is always there.
\<close>

definition segments_of_line :: "string \<Rightarrow> segment list" where
  "segments_of_line line0 =
     (let line = strip line0
      in if line = [] then []
         else (case split_on CHR ''*'' line of
                 [] \<Rightarrow> []
               | e # es \<Rightarrow> [\<lparr>seg_id = e, elements = es\<rparr>]))"

definition parse_segments :: "string \<Rightarrow> segment list" where
  "parse_segments x12_content =
     (let lines = split_on CHR ''~'' (filter (\<lambda>c. c \<noteq> CHR 0x0A) x12_content)
      in concat (map segments_of_line lines))"

subsection \<open>\<open>_init_transaction\<close> and the segment processors\<close>

text \<open>
  \<open>_init_transaction\<close> returns a dictionary with eleven keys, all \<open>None\<close>; the other
  keys of the record are missing from it.
\<close>

definition init_transaction :: transaction where
  "init_transaction =
     \<lparr>claim_id = None, patient_id = None, patient_name = None, date_of_service = None,
      billed_amount = None, status_category = None, status_code = None,
      rejection_reason = None, provider_npi = None, payer_claim_control_number = None,
      trace_number = None,
      transaction_date = None, charged_amount = None, payment_date = None,
      paid_amount = None, claim_status = None\<rparr>"

text \<open>
  Every processor reads the elements by index, which raises \<open>IndexError\<close> out of range;
  the result is the transaction after the processor, or the exception.
\<close>

definition process_nm1 :: "segment \<Rightarrow> transaction \<Rightarrow> py_error + transaction" where
  "process_nm1 seg t =
     (let es = elements seg
      in if length es < 2 then Inr t
         else
           and_then (py_index es 0)
             (\<lambda>entity_code.
                if entity_code = ''IL'' then
                  and_then
                    (if length es \<ge> 3 then
                       and_then (py_index es 2)
                         (\<lambda>e2. and_then (py_index es 1)
                            (\<lambda>e1. Inr (t\<lparr>patient_name := Some (e2 @ '' '' @ e1)\<rparr>)))
                     else Inr t)
                    (\<lambda>t1. if length es \<ge> 9 then
                            and_then (py_index es 8) (\<lambda>e8. Inr (t1\<lparr>patient_id := Some e8\<rparr>))
                          else Inr t1)
                else if entity_code = ''1P'' then
                  (if length es \<ge> 9 then
                     and_then (py_index es 8) (\<lambda>e8. Inr (t\<lparr>provider_npi := Some e8\<rparr>))
                   else Inr t)
                else Inr t))"

definition process_trn :: "segment \<Rightarrow> transaction \<Rightarrow> py_error + transaction" where
  "process_trn seg t =
     (let es = elements seg
      in if length es \<ge> 2 then
           and_then (py_index es 1) (\<lambda>e1. Inr (t\<lparr>trace_number := Some e1\<rparr>))
         else Inr t)"

text \<open>
  The failure of \<open>float\<close> is caught inside \<open>_process_stc\<close> and leaves the amount as it
  was; whatever float it returns is stored.
\<close>

definition process_stc :: "float_lib \<Rightarrow> segment \<Rightarrow> transaction \<Rightarrow> py_error + transaction" where
  "process_stc lib seg t =
     (let es = elements seg
      in if length es < 1 then Inr t
         else
           and_then (py_index es 0)
             (\<lambda>status_info.
                and_then
                  (if CHR '':'' \<in> set status_info then
                     (let parts = split_on CHR '':'' status_info
                      in and_then (py_index parts 0)
                           (\<lambda>p0. and_then
                                    (if length parts > 1
                                     then and_then (py_index parts 1) (\<lambda>p1. Inr (Some p1))
                                     else Inr None)
                                    (\<lambda>code. Inr (t\<lparr>status_category := Some p0,
                                                     status_code := code\<rparr>))))
                   else Inr t)
                  (\<lambda>t1. if length es \<ge> 4 then
                            and_then (py_index es 3)
                              (\<lambda>e3. if e3 \<noteq> [] then
                                       (case float_of_text lib e3 of
                                          None \<Rightarrow> Inr t1
                                        | Some a \<Rightarrow> Inr (t1\<lparr>billed_amount := Some a\<rparr>))
                                     else Inr t1)
                          else Inr t1)))"

definition process_ref :: "segment \<Rightarrow> transaction \<Rightarrow> py_error + transaction" where
  "process_ref seg t =
     (let es = elements seg
      in if length es < 2 then Inr t
         else
           and_then (py_index es 0)
             (\<lambda>ref_qualifier. and_then (py_index es 1)
                (\<lambda>ref_value.
                   if ref_qualifier = ''D9'' then Inr (t\<lparr>claim_id := Some ref_value\<rparr>)
                   else if ref_qualifier = ''EA'' then
                     (if \<not> truthy_str (patient_id t)
                      then Inr (t\<lparr>patient_id := Some ref_value\<rparr>) else Inr t)
                   else Inr t)))"

definition process_dtp :: "segment \<Rightarrow> transaction \<Rightarrow> py_error + transaction" where
  "process_dtp seg t =
     (let es = elements seg
      in if length es < 3 then Inr t
         else
           and_then (py_index es 0)
             (\<lambda>date_qualifier.
                if date_qualifier = ''472''
                then and_then (py_index es 2) (\<lambda>e2. Inr (t\<lparr>date_of_service := Some e2\<rparr>))
                else Inr t))"

definition process_msg :: "segment \<Rightarrow> transaction \<Rightarrow> py_error + transaction" where
  "process_msg seg t =
     (let es = elements seg
      in if es \<noteq> [] then
           and_then (py_index es 0) (\<lambda>e0. Inr (t\<lparr>rejection_reason := Some e0\<rparr>))
         else Inr t)"

subsection \<open>\<open>parse\<close>\<close>

text \<open>Appending the current transaction to the acknowledgments, when it has a trace number.\<close>

definition commit :: "transaction option \<Rightarrow> transaction list \<Rightarrow> transaction list" where
  "commit current acks =
     (case current of
        None \<Rightarrow> acks
      | Some t \<Rightarrow> if truthy_str (trace_number t) then acks @ [t] else acks)"

definition dispatch :: "float_lib \<Rightarrow> segment \<Rightarrow> transaction \<Rightarrow> py_error + transaction" where
  "dispatch lib seg t =
     (if seg_id seg = ''NM1'' then process_nm1 seg t
      else if seg_id seg = ''TRN'' then process_trn seg t
      else if seg_id seg = ''STC'' then process_stc lib seg t
      else if seg_id seg = ''REF'' then process_ref seg t
      else if seg_id seg = ''DTP'' then process_dtp seg t
      else if seg_id seg = ''MSG'' then process_msg seg t
      else Inr t)"

text \<open>
  The body of the loop over the segments; the state is the current transaction and the
  acknowledgments so far.
\<close>

definition assemble_step ::
  "float_lib \<Rightarrow> transaction option \<times> transaction list \<Rightarrow> segment
     \<Rightarrow> py_error + transaction option \<times> transaction list" where
  "assemble_step lib st seg =
     (case st of (current, acks) \<Rightarrow>
        and_then
          (if seg_id seg = ''HL'' \<and> length (elements seg) \<ge> 3 then
             and_then (py_index (elements seg) 2)
               (\<lambda>level_code.
                  if level_code = ''22''
                  then Inr (Some init_transaction, commit current acks)
                  else Inr (current, acks))
           else Inr (current, acks))
          (\<lambda>st1. case st1 of (current1, acks1) \<Rightarrow>
             (case current1 of
                None \<Rightarrow> Inr (None, acks1)
              | Some t \<Rightarrow> and_then (dispatch lib seg t) (\<lambda>t'. Inr (Some t', acks1)))))"

text \<open>The loop, which an exception ends, and the commit of the last transaction after it.\<close>

fun assemble_loop ::
  "float_lib \<Rightarrow> transaction option \<times> transaction list \<Rightarrow> segment list
     \<Rightarrow> py_error + transaction option \<times> transaction list" where
  "assemble_loop lib st [] = Inr st"
| "assemble_loop lib st (seg # segs) =
     and_then (assemble_step lib st seg) (\<lambda>st'. assemble_loop lib st' segs)"

definition assemble :: "float_lib \<Rightarrow> segment list \<Rightarrow> py_error + transaction list" where
  "assemble lib segments =
     and_then (assemble_loop lib (None, []) segments)
       (\<lambda>st. case st of (current, acks) \<Rightarrow> Inr (commit current acks))"

text \<open>The loop that sorts the acknowledgments into rejections and acceptances.\<close>

definition categorize_step ::
  "transaction list \<times> transaction list \<Rightarrow> transaction \<Rightarrow> transaction list \<times> transaction list" where
  "categorize_step st ack =
     (case st of (rejs, accs) \<Rightarrow>
        if status_category ack = Some ''A7'' then (rejs @ [ack], accs)
        else if status_category ack = Some ''A1'' then (rejs, accs @ [ack])
        else (rejs, accs))"

record parse_summary =
  total_claims :: nat
  rejected_count :: nat
  accepted_count :: nat
  rejection_rate :: pyfloat

record parse_result =
  transaction_type :: string
  version :: string
  acknowledgments :: "transaction list"
  rejections :: "transaction list"
  acceptances :: "transaction list"
  summary :: parse_summary

text \<open>
  The body of the \<open>try\<close> statement of \<open>parse\<close>. The rejection rate is the quotient of
  the two lengths times 100, in floats, or the integer 0, which stands here as the float
  of that value.
\<close>

definition parse_body :: "float_lib \<Rightarrow> string \<Rightarrow> py_error + parse_result" where
  "parse_body lib x12_content =
     (let segments = parse_segments x12_content
      in and_then (assemble lib segments)
           (\<lambda>acks. case foldl categorize_step ([], []) acks of
              (rejs, accs) \<Rightarrow>
                Inr \<lparr>transaction_type = ''277CA'',
                     version = ''005010X214'',
                     acknowledgments = acks,
                     rejections = rejs,
                     acceptances = accs,
                     summary =
                       \<lparr>total_claims = length acks,
                        rejected_count = length rejs,
                        accepted_count = length accs,
                        rejection_rate =
                          (if acks \<noteq> []
                           then float_mul lib (true_div lib (length rejs) (length acks))
                                  (Finite 100)
                           else Finite 0)\<rparr>\<rparr>))"

text \<open>
  \<open>parse\<close> turns every exception of the body into \<open>X12ParseError\<close>, which keeps the
  exception as its cause.
\<close>

datatype parse_error = X12ParseError py_error

definition parse :: "float_lib \<Rightarrow> string \<Rightarrow> parse_error + parse_result" where
  "parse lib x12_content =
     (case parse_body lib x12_content of
        Inl e \<Rightarrow> Inl (X12ParseError e)
      | Inr r \<Rightarrow> Inr r)"

text \<open>
  Feeding one document to an engine: the rejections of its parse result go to
  \<open>add_277ca_rejections\<close>; when \<open>parse\<close> raises, the engine is not reached.
\<close>

definition feed_document :: "float_lib \<Rightarrow> engine \<Rightarrow> string \<Rightarrow> engine" where
  "feed_document lib s x12_content =
     (case parse lib x12_content of
        Inl e \<Rightarrow> s
      | Inr r \<Rightarrow> fst (add_277ca_rejections s (rejections r)))"

(*SPECDEFS*)

section \<open>Concrete examples\<close>

text \<open>
  An instance of the library parameters for the concrete examples of this file. It is
  not Python's arithmetic: it computes without rounding, which gives Python's result
  wherever the exact result is a float, as it is at every use in this file, and it reads
  only the two texts that the examples contain, as \<open>float\<close> reads them.
\<close>

fun exact_mul :: "pyfloat \<Rightarrow> pyfloat \<Rightarrow> pyfloat" where
  "exact_mul (Finite a) (Finite b) = Finite (a * b)"
| "exact_mul x y = NaN"

fun exact_add :: "pyfloat \<Rightarrow> pyfloat \<Rightarrow> pyfloat" where
  "exact_add (Finite a) (Finite b) = Finite (a + b)"
| "exact_add x y = NaN"

definition sample_float_of_text :: "string \<Rightarrow> pyfloat option" where
  "sample_float_of_text s =
     (if s = ''150.50'' then Some (Finite (301 / 2))
      else if s = ''nan'' then Some NaN
      else None)"

definition sample_lib :: float_lib where
  "sample_lib =
     \<lparr>float_of_text = sample_float_of_text,
      true_div = (\<lambda>a b. Finite (of_nat a / of_nat b)),
      float_mul = exact_mul,
      float_sum = foldl exact_add (Finite 0)\<rparr>"

text \<open>
  A document with two claim-level transactions: a rejected one with a trace number, and
  an accepted one without.
\<close>

definition sample_document :: string where
  "sample_document =
     ''HL*1**22~TRN*1*T1~STC*A7:21*20240101*U*150.50~NM1*IL*1*DOE*JOHN****MI*12345~'' @
     ''HL*2**22~STC*A1:20~''"

definition sample_rejection :: transaction where
  "sample_rejection =
     init_transaction\<lparr>patient_id := Some ''12345'', patient_name := Some ''DOE 1'',
                      billed_amount := Some (Finite (301 / 2)),
                      status_category := Some ''A7'',
                      status_code := Some ''21'', trace_number := Some ''T1''\<rparr>"

definition sample_result :: parse_result where
  "sample_result =
     \<lparr>transaction_type = ''277CA'', version = ''005010X214'',
      acknowledgments = [sample_rejection], rejections = [sample_rejection],
      acceptances = [],
      summary = \<lparr>total_claims = 1, rejected_count = 1, accepted_count = 0,
                 rejection_rate = Finite 100\<rparr>\<rparr>"


text \<open>The state of the loop over the segments holds no transaction with a \<open>transaction_date\<close>.\<close>

definition undated :: "transaction option \<times> transaction list \<Rightarrow> bool" where
  "undated st \<longleftrightarrow>
     (case fst st of None \<Rightarrow> True | Some t \<Rightarrow> transaction_date t = None)
     \<and> list_all (\<lambda>t. transaction_date t = None) (snd st)"

text \<open>
  An instance of the parameter \<open>strptime\<close> for the concrete examples: it reads the first
  day of 2024 in both formats, as the library does (day 738885 after the first day of the
  year 1, at midnight), and refuses every other text.
\<close>

definition sample_strptime :: "string \<Rightarrow> string \<Rightarrow> int option" where
  "sample_strptime s fmt =
     (if fmt = ''%Y%m%d'' \<and> s = ''20240101'' then Some (738885 * day_us)
      else if fmt = ''%Y-%m-%d'' \<and> s = ''2024-01-01'' then Some (738885 * day_us)
      else None)"

text \<open>The engine after the sample document was fed to a new engine.\<close>

definition sample_engine :: engine where
  "sample_engine =
     \<lparr>lookback_days = 60,
      rejections_cache =
        [(''12345|150'',
          \<lparr>rejection_date = None, rej_patient_id = Some ''12345'',
           rej_patient_name = Some ''DOE 1'', rej_date_of_service = None,
           rej_billed_amount = Some (Finite (301 / 2)), rej_rejection_reason = None,
           rej_status_code = Some ''21'', rej_trace_number = Some ''T1'',
           found_in_835 = False, resubmission_date = None\<rparr>)],
      payments_cache = []\<rparr>"

text \<open>
  An engine whose cache holds one rejection, dated the first day of 2024, that no
  payment has matched.
\<close>

definition dated_entry :: rejection_entry where
  "dated_entry =
     \<lparr>rejection_date = Some ''20240101'', rej_patient_id = Some ''12345'',
      rej_patient_name = Some ''JOHN DOE'', rej_date_of_service = Some ''20231215'',
      rej_billed_amount = Some (Finite (301 / 2)),
      rej_rejection_reason = Some ''Invalid subscriber id'',
      rej_status_code = Some ''21'', rej_trace_number = Some ''T1'',
      found_in_835 = False, resubmission_date = None\<rparr>"

definition dated_engine :: engine where
  "dated_engine =
     \<lparr>lookback_days = 60, rejections_cache = [(''12345|20231215|150'', dated_entry)],
      payments_cache = []\<rparr>"

section \<open>Notions of the specification\<close>

text \<open>
  The entry that \<open>add_277ca_rejections\<close> stores for a rejection (lines 57 to 68 of
  \<open>reconciliation.py\<close>).
\<close>

definition tracked_entry :: "transaction \<Rightarrow> rejection_entry" where
  "tracked_entry rejection =
     \<lparr>rejection_date = transaction_date rejection,
      rej_patient_id = patient_id rejection,
      rej_patient_name = patient_name rejection,
      rej_date_of_service = date_of_service rejection,
      rej_billed_amount = billed_amount rejection,
      rej_rejection_reason = rejection_reason rejection,
      rej_status_code = status_code rejection,
      rej_trace_number = trace_number rejection,
      found_in_835 = False,
      resubmission_date = None\<rparr>"

text \<open>
  The billed amounts of the cache entries that no payment has matched, one for each such
  entry, in the order of the cache; a missing amount counts as 0.
\<close>

fun unmatched_amounts :: "(string \<times> rejection_entry) list \<Rightarrow> pyfloat list" where
  "unmatched_amounts [] = []"
| "unmatched_amounts ((k, e) # rest) =
     (if found_in_835 e then unmatched_amounts rest
      else (case rej_billed_amount e of None \<Rightarrow> Finite 0 | Some a \<Rightarrow> a)
           # unmatched_amounts rest)"


section \<open>Properties of the parser\<close>

declare str_nat.simps [simp del]

subsection \<open>No statement of the parser raises\<close>

lemma split_on_nonempty: "split_on c s \<noteq> []"
  by (induction s) (auto split: list.splits)

lemma process_nm1_returns:
  "process_nm1 seg t =
     Inr (let es = elements seg
          in if length es < 2 then t
             else if es ! 0 = ''IL'' then
               (let t1 = (if length es \<ge> 3
                          then t\<lparr>patient_name := Some (es ! 2 @ '' '' @ es ! 1)\<rparr> else t)
                in if length es \<ge> 9 then t1\<lparr>patient_id := Some (es ! 8)\<rparr> else t1)
             else if es ! 0 = ''1P'' then
               (if length es \<ge> 9 then t\<lparr>provider_npi := Some (es ! 8)\<rparr> else t)
             else t)"
  by (simp add: process_nm1_def py_index_def and_then_def Let_def)

lemma process_trn_returns:
  "process_trn seg t =
     Inr (if length (elements seg) \<ge> 2
          then t\<lparr>trace_number := Some (elements seg ! 1)\<rparr> else t)"
  by (simp add: process_trn_def py_index_def and_then_def Let_def)

lemma process_stc_returns:
  "\<exists>t'. process_stc lib seg t = Inr t' \<and> trace_number t' = trace_number t
        \<and> transaction_date t' = transaction_date t"
  by (simp add: process_stc_def py_index_def and_then_def Let_def split_on_nonempty
        split: option.splits)

lemma process_ref_returns:
  "process_ref seg t =
     Inr (let es = elements seg
          in if length es < 2 then t
             else if es ! 0 = ''D9'' then t\<lparr>claim_id := Some (es ! 1)\<rparr>
             else if es ! 0 = ''EA'' then
               (if \<not> truthy_str (patient_id t) then t\<lparr>patient_id := Some (es ! 1)\<rparr> else t)
             else t)"
  by (simp add: process_ref_def py_index_def and_then_def Let_def)

lemma process_dtp_returns:
  "process_dtp seg t =
     Inr (let es = elements seg
          in if length es < 3 then t
             else if es ! 0 = ''472'' then t\<lparr>date_of_service := Some (es ! 2)\<rparr>
             else t)"
  by (simp add: process_dtp_def py_index_def and_then_def Let_def)

lemma process_msg_returns:
  "process_msg seg t =
     Inr (if elements seg \<noteq> [] then t\<lparr>rejection_reason := Some (elements seg ! 0)\<rparr> else t)"
  by (simp add: process_msg_def py_index_def and_then_def Let_def)

lemma dispatch_returns:
  "\<exists>t'. dispatch lib seg t = Inr t'
        \<and> (seg_id seg \<noteq> ''TRN'' \<longrightarrow> trace_number t' = trace_number t)
        \<and> transaction_date t' = transaction_date t"
proof -
  obtain t' where "process_stc lib seg t = Inr t'" "trace_number t' = trace_number t"
      "transaction_date t' = transaction_date t"
    using process_stc_returns by blast
  then show ?thesis
    by (simp add: dispatch_def process_nm1_returns process_trn_returns process_ref_returns
          process_dtp_returns process_msg_returns Let_def)
qed


lemma assemble_step_returns:
  "\<exists>cur' acks'. assemble_step lib (cur, acks) seg = Inr (cur', acks')
      \<and> (acks' = acks \<or> acks' = commit cur acks)
      \<and> (cur' = None \<or>
           (\<exists>t0 t'. (cur = Some t0 \<or> t0 = init_transaction) \<and> cur' = Some t'
                    \<and> dispatch lib seg t0 = Inr t'))"
proof (cases "seg_id seg = ''HL'' \<and> length (elements seg) \<ge> 3 \<and> elements seg ! 2 = ''22''")
  case True
  obtain t' where t': "dispatch lib seg init_transaction = Inr t'"
    using dispatch_returns by blast
  have "assemble_step lib (cur, acks) seg = Inr (Some t', commit cur acks)"
    using True t' by (simp add: assemble_step_def py_index_def and_then_def)
  then show ?thesis using t' by blast
next
  case False
  show ?thesis
  proof (cases cur)
    case None
    have "assemble_step lib (cur, acks) seg = Inr (None, acks)"
      using False None by (auto simp: assemble_step_def py_index_def and_then_def)
    then show ?thesis by blast
  next
    case (Some t0)
    obtain t' where t': "dispatch lib seg t0 = Inr t'"
      using dispatch_returns by blast
    have "assemble_step lib (cur, acks) seg = Inr (Some t', acks)"
      using False Some t' by (auto simp: assemble_step_def py_index_def and_then_def)
    then show ?thesis using t' Some by blast
  qed
qed

lemma assemble_loop_returns: "\<exists>st'. assemble_loop lib st segs = Inr st'"
proof (induction segs arbitrary: st)
  case Nil
  show ?case by simp
next
  case (Cons seg segs)
  obtain cur acks where st: "st = (cur, acks)" by (cases st)
  obtain st1 where st1: "assemble_step lib st seg = Inr st1"
    using assemble_step_returns[of lib cur acks seg] st by blast
  obtain st' where "assemble_loop lib st1 segs = Inr st'"
    using Cons.IH by blast
  then show ?case using st1 by (simp add: and_then_def)
qed

lemma assemble_returns: "\<exists>acks. assemble lib segs = Inr acks"
proof -
  obtain st' where "assemble_loop lib (None, []) segs = Inr st'"
    using assemble_loop_returns by blast
  then show ?thesis by (cases st') (simp add: assemble_def and_then_def)
qed

lemma parse_returns: "\<exists>r. parse lib x = Inr r"
proof -
  obtain acks where "assemble lib (parse_segments x) = Inr acks"
    using assemble_returns by blast
  then show ?thesis
    by (simp add: parse_def parse_body_def and_then_def Let_def split: prod.splits)
qed

subsection \<open>The lists and the summary of a parse result\<close>

lemma foldl_categorize:
  "foldl categorize_step (rejs, accs) acks
     = (rejs @ filter (\<lambda>t. status_category t = Some ''A7'') acks,
        accs @ filter (\<lambda>t. status_category t \<noteq> Some ''A7'' \<and> status_category t = Some ''A1'') acks)"
  by (induction acks arbitrary: rejs accs) (auto simp: categorize_step_def)

lemma filter_accepted:
  "filter (\<lambda>t. status_category t \<noteq> Some ''A7'' \<and> status_category t = Some ''A1'') acks
     = filter (\<lambda>t. status_category t = Some ''A1'') acks"
  by (rule filter_cong) auto

lemma parse_result_fields:
  assumes "parse lib x = Inr r"
  shows "assemble lib (parse_segments x) = Inr (acknowledgments r)"
    and "rejections r = filter (\<lambda>t. status_category t = Some ''A7'') (acknowledgments r)"
    and "acceptances r = filter (\<lambda>t. status_category t = Some ''A1'') (acknowledgments r)"
    and "total_claims (summary r) = length (acknowledgments r)"
    and "rejected_count (summary r) = length (rejections r)"
    and "accepted_count (summary r) = length (acceptances r)"
    and "rejection_rate (summary r)
         = (if acknowledgments r \<noteq> []
            then float_mul lib (true_div lib (length (rejections r))
                                  (length (acknowledgments r))) (Finite 100)
            else Finite 0)"
proof -
  obtain acks where a: "assemble lib (parse_segments x) = Inr acks"
    using assemble_returns by blast
  have r: "r = \<lparr>transaction_type = ''277CA'', version = ''005010X214'',
                acknowledgments = acks,
                rejections = filter (\<lambda>t. status_category t = Some ''A7'') acks,
                acceptances = filter (\<lambda>t. status_category t = Some ''A1'') acks,
                summary =
                  \<lparr>total_claims = length acks,
                   rejected_count = length (filter (\<lambda>t. status_category t = Some ''A7'') acks),
                   accepted_count = length (filter (\<lambda>t. status_category t = Some ''A1'') acks),
                   rejection_rate =
                     (if acks \<noteq> []
                      then float_mul lib
                             (true_div lib
                                (length (filter (\<lambda>t. status_category t = Some ''A7'') acks))
                                (length acks)) (Finite 100)
                      else Finite 0)\<rparr>\<rparr>"
    using assms a
    by (simp add: parse_def parse_body_def and_then_def Let_def foldl_categorize filter_accepted)
  show "assemble lib (parse_segments x) = Inr (acknowledgments r)" using a r by simp
  show "rejections r = filter (\<lambda>t. status_category t = Some ''A7'') (acknowledgments r)"
    using r by simp
  show "acceptances r = filter (\<lambda>t. status_category t = Some ''A1'') (acknowledgments r)"
    using r by simp
  show "total_claims (summary r) = length (acknowledgments r)" using r by simp
  show "rejected_count (summary r) = length (rejections r)" using r by simp
  show "accepted_count (summary r) = length (acceptances r)" using r by simp
  show "rejection_rate (summary r)
         = (if acknowledgments r \<noteq> []
            then float_mul lib (true_div lib (length (rejections r))
                                  (length (acknowledgments r))) (Finite 100)
            else Finite 0)"
    using r by simp
qed

lemma parse_sample: "parse sample_lib sample_document = Inr sample_result"
  by code_simp



subsection \<open>Invariants of the loop over the segments\<close>

lemma commit_truthy:
  "\<forall>t\<in>set acks. truthy_str (trace_number t) \<Longrightarrow>
   \<forall>t\<in>set (commit current acks). truthy_str (trace_number t)"
  by (auto simp: commit_def split: option.splits)

lemma assemble_step_truthy:
  assumes "assemble_step lib (cur, acks) seg = Inr (cur', acks')"
    and "\<forall>t\<in>set acks. truthy_str (trace_number t)"
  shows "\<forall>t\<in>set acks'. truthy_str (trace_number t)"
proof -
  have "acks' = acks \<or> acks' = commit cur acks"
    using assemble_step_returns[of lib cur acks seg] assms(1) by auto
  then show ?thesis using assms(2) commit_truthy[of acks cur] by auto
qed

lemma assemble_loop_truthy:
  "assemble_loop lib st segs = Inr st' \<Longrightarrow>
   \<forall>t\<in>set (snd st). truthy_str (trace_number t) \<Longrightarrow>
   \<forall>t\<in>set (snd st'). truthy_str (trace_number t)"
proof (induction segs arbitrary: st)
  case Nil
  then show ?case by simp
next
  case (Cons seg segs)
  obtain cur acks where st: "st = (cur, acks)" by (cases st)
  obtain cur1 acks1 where st1: "assemble_step lib (cur, acks) seg = Inr (cur1, acks1)"
    using assemble_step_returns[of lib cur acks seg] by blast
  have "\<forall>t\<in>set acks. truthy_str (trace_number t)" using Cons.prems(2) st by simp
  then have i: "\<forall>t\<in>set (snd (cur1, acks1)). truthy_str (trace_number t)"
    using assemble_step_truthy[OF st1] by simp
  have "assemble_loop lib (cur1, acks1) segs = Inr st'"
    using Cons.prems(1) st st1 by (simp add: and_then_def)
  then show ?case using i by (rule Cons.IH)
qed

lemma assemble_truthy:
  assumes "assemble lib segs = Inr acks" and "t \<in> set acks"
  shows "truthy_str (trace_number t)"
proof -
  obtain cur acks0 where l: "assemble_loop lib (None, []) segs = Inr (cur, acks0)"
    using assemble_loop_returns[of lib "(None, [])" segs] by (metis surj_pair)
  have "\<forall>t\<in>set (snd (cur, acks0)). truthy_str (trace_number t)"
    by (rule assemble_loop_truthy[OF l]) simp
  then have "\<forall>t\<in>set (commit cur acks0). truthy_str (trace_number t)"
    using commit_truthy[of acks0 cur] by simp
  moreover have "acks = commit cur acks0"
    using assms(1) l by (simp add: assemble_def and_then_def)
  ultimately show ?thesis using assms(2) by simp
qed


lemma commit_undated: "undated (cur, acks) \<Longrightarrow> undated (None, commit cur acks)"
  by (cases cur) (simp_all add: undated_def commit_def)

lemma assemble_step_undated:
  assumes "assemble_step lib (cur, acks) seg = Inr (cur', acks')" and "undated (cur, acks)"
  shows "undated (cur', acks')"
proof -
  from assemble_step_returns[of lib cur acks seg] assms(1)
  have a: "acks' = acks \<or> acks' = commit cur acks"
    and c: "cur' = None \<or>
           (\<exists>t0 t'. (cur = Some t0 \<or> t0 = init_transaction) \<and> cur' = Some t'
                    \<and> dispatch lib seg t0 = Inr t')"
    by auto
  have l: "list_all (\<lambda>t. transaction_date t = None) acks'"
    using a assms(2) commit_undated[of cur acks] by (auto simp: undated_def)
  have "case cur' of None \<Rightarrow> True | Some t \<Rightarrow> transaction_date t = None"
  proof (cases cur')
    case None
    then show ?thesis by simp
  next
    case (Some t')
    then obtain t0 where t0: "cur = Some t0 \<or> t0 = init_transaction"
        and d: "dispatch lib seg t0 = Inr t'"
      using c by auto
    have "transaction_date t0 = None"
      using t0 assms(2) by (auto simp: undated_def init_transaction_def)
    moreover have "transaction_date t' = transaction_date t0"
      using dispatch_returns[of lib seg t0] d by auto
    ultimately show ?thesis using Some by simp
  qed
  then show ?thesis using l by (simp add: undated_def)
qed

lemma assemble_loop_undated:
  "assemble_loop lib st segs = Inr st' \<Longrightarrow> undated st \<Longrightarrow> undated st'"
proof (induction segs arbitrary: st)
  case Nil
  then show ?case by simp
next
  case (Cons seg segs)
  obtain cur acks where st: "st = (cur, acks)" by (cases st)
  obtain cur1 acks1 where st1: "assemble_step lib (cur, acks) seg = Inr (cur1, acks1)"
    using assemble_step_returns[of lib cur acks seg] by blast
  have i: "undated (cur1, acks1)"
    using assemble_step_undated[OF st1] Cons.prems(2) st by simp
  have "assemble_loop lib (cur1, acks1) segs = Inr st'"
    using Cons.prems(1) st st1 by (simp add: and_then_def)
  then show ?case using i by (rule Cons.IH)
qed

lemma assemble_undated:
  assumes "assemble lib segs = Inr acks" and "t \<in> set acks"
  shows "transaction_date t = None"
proof -
  obtain cur acks0 where l: "assemble_loop lib (None, []) segs = Inr (cur, acks0)"
    using assemble_loop_returns[of lib "(None, [])" segs] by (metis surj_pair)
  have "undated (cur, acks0)"
    by (rule assemble_loop_undated[OF l]) (simp add: undated_def)
  then have "undated (None, commit cur acks0)" by (rule commit_undated)
  moreover have "acks = commit cur acks0"
    using assms(1) l by (simp add: assemble_def and_then_def)
  ultimately show ?thesis using assms(2) by (simp add: undated_def list_all_iff)
qed

subsection \<open>Committed records have a trace number\<close>

text \<open>
  Claim C3. For every document, every record of the acknowledgments of the result has a
  trace number that is set and not empty, and the rejections and the acceptances are
  taken from the acknowledgments; a transaction whose trace number is unset or empty at
  the commit leaves the acknowledgments as they were, and so appears in none of the
  three lists.
\<close>

theorem committed_records_have_trace_number:
  "parse lib x = Inr r \<Longrightarrow>
     (\<forall>t\<in>set (acknowledgments r). \<exists>n. trace_number t = Some n \<and> n \<noteq> [])
     \<and> set (rejections r) \<subseteq> set (acknowledgments r)
     \<and> set (acceptances r) \<subseteq> set (acknowledgments r)
     \<and> (\<forall>t. \<not> truthy_str (trace_number t) \<longrightarrow>
            commit (Some t) acks = acks
            \<and> t \<notin> set (acknowledgments r) \<and> t \<notin> set (rejections r)
            \<and> t \<notin> set (acceptances r))"
proof -
  assume r: "parse lib x = Inr r"
  note f = parse_result_fields[OF r]
  have tr: "\<And>t. t \<in> set (acknowledgments r) \<Longrightarrow> truthy_str (trace_number t)"
    using assemble_truthy[OF f(1)] by simp
  have 1: "\<forall>t\<in>set (acknowledgments r). \<exists>n. trace_number t = Some n \<and> n \<noteq> []"
  proof
    fix t assume "t \<in> set (acknowledgments r)"
    then have "truthy_str (trace_number t)" by (rule tr)
    then show "\<exists>n. trace_number t = Some n \<and> n \<noteq> []"
      by (cases "trace_number t") auto
  qed
  have 2: "set (rejections r) \<subseteq> set (acknowledgments r)"
          "set (acceptances r) \<subseteq> set (acknowledgments r)"
    using f(2) f(3) by auto
  have 3: "\<forall>t. \<not> truthy_str (trace_number t) \<longrightarrow>
            commit (Some t) acks = acks
            \<and> t \<notin> set (acknowledgments r) \<and> t \<notin> set (rejections r)
            \<and> t \<notin> set (acceptances r)"
    using tr 2 by (auto simp: commit_def)
  from 1 2 3 show ?thesis by blast
qed

theorem committed_records_have_trace_number_witness:
  "acknowledgments sample_result = [sample_rejection]
   \<and> trace_number sample_rejection = Some ''T1''
   \<and> init_transaction\<lparr>status_category := Some ''A1'', status_code := Some ''20''\<rparr>
       \<notin> set (acknowledgments sample_result)
   \<and> init_transaction\<lparr>status_category := Some ''A1'', status_code := Some ''20''\<rparr>
       \<notin> set (acceptances sample_result)"
  using committed_records_have_trace_number[OF parse_sample, of "[]"]
  by (simp add: sample_result_def sample_rejection_def init_transaction_def)

subsection \<open>The summary of a parsed document\<close>

text \<open>
  Claim C8, as the code has it. The summary of a parsed document reports the number of
  acknowledgments, the number of them with the rejected code \<open>A7\<close>, the number with the
  accepted code \<open>A1\<close>, and as rejection rate a percentage: the quotient of the rejected
  count by the total, as Python's division of two integers rounds it, multiplied by 100,
  as Python's product of two floats rounds it, or 0 when the total is 0.
\<close>

theorem parse_summary_counts:
  "parse lib x = Inr r \<Longrightarrow>
     total_claims (summary r) = length (acknowledgments r)
     \<and> rejected_count (summary r)
         = length (filter (\<lambda>t. status_category t = Some ''A7'') (acknowledgments r))
     \<and> accepted_count (summary r)
         = length (filter (\<lambda>t. status_category t = Some ''A1'') (acknowledgments r))
     \<and> rejection_rate (summary r)
         = (if total_claims (summary r) = 0 then Finite 0
            else float_mul lib
                   (true_div lib (rejected_count (summary r)) (total_claims (summary r)))
                   (Finite 100))"
proof -
  assume r: "parse lib x = Inr r"
  note f = parse_result_fields[OF r]
  show ?thesis
    by (simp add: f(4) f(5) f(6) f(7)) (simp add: f(2) f(3))
qed

theorem parse_summary_counts_witness:
  "total_claims (summary sample_result) = 1
   \<and> rejected_count (summary sample_result) = 1
   \<and> accepted_count (summary sample_result) = 0
   \<and> rejection_rate (summary sample_result) = Finite 100"
  using parse_summary_counts[OF parse_sample]
  by (simp add: sample_result_def sample_rejection_def init_transaction_def)

text \<open>
  Claim C8 as stated fails: with one rejected claim out of one, the rate is 100 and not
  the quotient 1 of the two counts.
\<close>

theorem rejection_rate_counterexample:
  "parse sample_lib sample_document = Inr sample_result
   \<and> rejected_count (summary sample_result) = 1
   \<and> total_claims (summary sample_result) = 1
   \<and> rejection_rate (summary sample_result) = Finite 100
   \<and> true_div sample_lib (rejected_count (summary sample_result))
        (total_claims (summary sample_result)) = Finite 1
   \<and> rejection_rate (summary sample_result)
       \<noteq> true_div sample_lib (rejected_count (summary sample_result))
            (total_claims (summary sample_result))"
  by (simp add: parse_sample) (simp add: sample_result_def sample_lib_def)

subsection \<open>A document without claims\<close>


subsection \<open>The name segment\<close>

text \<open>
  Claim C7, as the code has it. A name segment with fewer than two elements changes
  nothing. When element 0 is the patient role code \<open>IL\<close>, \<open>patient_id\<close> is set from
  element 8 of the element list when the list has at least nine elements, and is left as
  it was otherwise; when element 0 is the provider role code \<open>1P\<close>, \<open>provider_npi\<close> is
  set from element 8 when the list has at least nine elements, and is left as it was
  otherwise. The processor returns on every segment, and no field other than
  \<open>patient_name\<close>, \<open>patient_id\<close> and \<open>provider_npi\<close> changes.
\<close>

theorem process_nm1_fields:
  "\<exists>t'. process_nm1 seg t = Inr t'
     \<and> (length (elements seg) < 2 \<longrightarrow> t' = t)
     \<and> patient_id t' =
         (if 9 \<le> length (elements seg) \<and> elements seg ! 0 = ''IL''
          then Some (elements seg ! 8) else patient_id t)
     \<and> provider_npi t' =
         (if 9 \<le> length (elements seg) \<and> elements seg ! 0 = ''1P''
          then Some (elements seg ! 8) else provider_npi t)
     \<and> (elements seg ! 0 \<noteq> ''IL'' \<longrightarrow> patient_name t' = patient_name t)
     \<and> t'\<lparr>patient_name := None, patient_id := None, provider_npi := None\<rparr>
         = t\<lparr>patient_name := None, patient_id := None, provider_npi := None\<rparr>"
  by (simp add: process_nm1_returns Let_def)

theorem process_nm1_fields_witness:
  "process_nm1 \<lparr>seg_id = ''NM1'',
                elements = [''IL'', ''1'', ''DOE'', ''JOHN'', '''', '''', '''', ''MI'', ''12345'']\<rparr>
     init_transaction
     = Inr (init_transaction\<lparr>patient_name := Some ''DOE 1'', patient_id := Some ''12345''\<rparr>)
   \<and> process_nm1 \<lparr>seg_id = ''NM1'', elements = [''IL'']\<rparr> init_transaction
     = Inr init_transaction"
  using process_nm1_fields[of "\<lparr>seg_id = ''NM1'',
                elements = [''IL'', ''1'', ''DOE'', ''JOHN'', '''', '''', '''', ''MI'', ''12345'']\<rparr>"
          init_transaction]
        process_nm1_fields[of "\<lparr>seg_id = ''NM1'', elements = [''IL'']\<rparr>" init_transaction]
  by (simp add: process_nm1_returns init_transaction_def)

text \<open>
  Claim C7 as stated fails: in a patient segment of eight elements, element 7 is present
  and the patient id stays unset; in a provider segment of eight elements the provider
  id stays unset; and in a segment of nine elements the id is element 8, not element 7.
\<close>

theorem process_nm1_element_7_counterexample:
  "process_nm1 \<lparr>seg_id = ''NM1'',
                elements = [''IL'', ''DOE'', ''JOHN'', '''', '''', '''', ''MI'', ''12345'']\<rparr>
     init_transaction
     = Inr (init_transaction\<lparr>patient_name := Some ''JOHN DOE''\<rparr>)
   \<and> patient_id (init_transaction\<lparr>patient_name := Some ''JOHN DOE''\<rparr>) = None
   \<and> process_nm1 \<lparr>seg_id = ''NM1'',
                  elements = [''1P'', ''CLINIC'', '''', '''', '''', '''', ''XX'', ''1234567893'']\<rparr>
       init_transaction
     = Inr init_transaction
   \<and> provider_npi init_transaction = None
   \<and> process_nm1 \<lparr>seg_id = ''NM1'',
                  elements = [''IL'', ''1'', ''DOE'', ''JOHN'', '''', '''', '''', ''MI'', ''12345'']\<rparr>
       init_transaction
     = Inr (init_transaction\<lparr>patient_name := Some ''DOE 1'', patient_id := Some ''12345''\<rparr>)
   \<and> ''12345'' \<noteq> ''MI''"
  by (simp add: process_nm1_returns init_transaction_def)

section \<open>Properties of the engine\<close>

subsection \<open>Rejections of the parser never carry a rejection date\<close>

lemma set_update_subset: "set (AList.update k v al) \<subseteq> insert (k, v) (set al)"
  by (induction al) auto

lemma add_rejection_cases:
  "add_rejection s r = Inr s' \<Longrightarrow>
     s' = s \<or>
     (\<exists>k. create_match_key r = Inr (Some k) \<and> k \<noteq> [] \<and>
          s' = s\<lparr>rejections_cache :=
                   AList.update k
                     \<lparr>rejection_date = transaction_date r, rej_patient_id = patient_id r,
                      rej_patient_name = patient_name r,
                      rej_date_of_service = date_of_service r,
                      rej_billed_amount = billed_amount r,
                      rej_rejection_reason = rejection_reason r,
                      rej_status_code = status_code r, rej_trace_number = trace_number r,
                      found_in_835 = False, resubmission_date = None\<rparr>
                     (rejections_cache s)\<rparr>)"
  by (auto simp: add_rejection_def and_then_def split: sum.splits option.splits if_splits)

lemma add_rejection_undated:
  assumes "add_rejection s r = Inr s'" and "transaction_date r = None"
    and "\<forall>e\<in>snd ` set (rejections_cache s). rejection_date e = None"
  shows "\<forall>e\<in>snd ` set (rejections_cache s'). rejection_date e = None"
proof -
  from add_rejection_cases[OF assms(1)] show ?thesis
  proof
    assume "s' = s"
    then show ?thesis using assms(3) by simp
  next
    assume "\<exists>k. create_match_key r = Inr (Some k) \<and> k \<noteq> [] \<and>
          s' = s\<lparr>rejections_cache :=
                   AList.update k
                     \<lparr>rejection_date = transaction_date r, rej_patient_id = patient_id r,
                      rej_patient_name = patient_name r,
                      rej_date_of_service = date_of_service r,
                      rej_billed_amount = billed_amount r,
                      rej_rejection_reason = rejection_reason r,
                      rej_status_code = status_code r, rej_trace_number = trace_number r,
                      found_in_835 = False, resubmission_date = None\<rparr>
                     (rejections_cache s)\<rparr>"
    then obtain k E where rc: "rejections_cache s' = AList.update k E (rejections_cache s)"
        and E: "rejection_date E = transaction_date r"
      by auto
    show ?thesis
    proof
      fix e assume "e \<in> snd ` set (rejections_cache s')"
      then obtain k' where "(k', e) \<in> set (AList.update k E (rejections_cache s))"
        unfolding rc by auto
      then have "(k', e) = (k, E) \<or> (k', e) \<in> set (rejections_cache s)"
        using set_update_subset[of k E "rejections_cache s"] by blast
      then show "rejection_date e = None"
      proof
        assume "(k', e) = (k, E)"
        then show ?thesis using E assms(2) by simp
      next
        assume "(k', e) \<in> set (rejections_cache s)"
        then have "e \<in> snd ` set (rejections_cache s)" by force
        then show ?thesis using assms(3) by auto
      qed
    qed
  qed
qed

lemma add_277ca_rejections_undated:
  "\<forall>r\<in>set rs. transaction_date r = None \<Longrightarrow>
   \<forall>e\<in>snd ` set (rejections_cache s). rejection_date e = None \<Longrightarrow>
   \<forall>e\<in>snd ` set (rejections_cache (fst (add_277ca_rejections s rs))). rejection_date e = None"
proof (induction rs arbitrary: s)
  case Nil
  then show ?case by simp
next
  case (Cons r rs)
  show ?case
  proof (cases "add_rejection s r")
    case (Inl e)
    then show ?thesis using Cons.prems(2) by simp
  next
    case (Inr s')
    have r: "transaction_date r = None" using Cons.prems(1) by simp
    have rs: "\<forall>r\<in>set rs. transaction_date r = None" using Cons.prems(1) by simp
    have "\<forall>e\<in>snd ` set (rejections_cache s'). rejection_date e = None"
      by (rule add_rejection_undated[OF Inr r Cons.prems(2)])
    then have "\<forall>e\<in>snd ` set (rejections_cache (fst (add_277ca_rejections s' rs))).
                 rejection_date e = None"
      by (rule Cons.IH[OF rs])
    then show ?thesis using Inr by simp
  qed
qed

lemma parse_undated:
  assumes "parse lib x = Inr r" and "t \<in> set (acknowledgments r)"
  shows "transaction_date t = None"
  using assemble_undated[OF parse_result_fields(1)[OF assms(1)] assms(2)] .

lemma feed_document_undated:
  assumes "\<forall>e\<in>snd ` set (rejections_cache s). rejection_date e = None"
  shows "\<forall>e\<in>snd ` set (rejections_cache (feed_document lib s x)). rejection_date e = None"
proof -
  obtain r where r: "parse lib x = Inr r" using parse_returns by blast
  have "set (rejections r) \<subseteq> set (acknowledgments r)"
    using parse_result_fields(2)[OF r] by auto
  then have "\<forall>t\<in>set (rejections r). transaction_date t = None"
    using parse_undated[OF r] by blast
  then have "\<forall>e\<in>snd ` set (rejections_cache (fst (add_277ca_rejections s (rejections r)))).
               rejection_date e = None"
    using assms by (rule add_277ca_rejections_undated)
  moreover have "feed_document lib s x = fst (add_277ca_rejections s (rejections r))"
    by (simp add: feed_document_def r)
  ultimately show ?thesis by simp
qed

lemma feed_documents_undated:
  "\<forall>e\<in>snd ` set (rejections_cache s). rejection_date e = None \<Longrightarrow>
   \<forall>e\<in>snd ` set (rejections_cache (foldl (feed_document lib) s xs)).
      rejection_date e = None"
proof (induction xs arbitrary: s)
  case Nil
  then show ?case by simp
next
  case (Cons x xs)
  have "\<forall>e\<in>snd ` set (rejections_cache
                 (foldl (feed_document lib) (feed_document lib s x) xs)).
          rejection_date e = None"
    by (rule Cons.IH) (rule feed_document_undated[OF Cons.prems])
  then show ?case by (simp only: foldl_Cons)
qed

lemma concat_map_empty: "\<forall>x\<in>set xs. f x = [] \<Longrightarrow> concat (map f xs) = []"
  by (induction xs) simp_all

lemma threshold_date_cases:
  "find_unsubmitted_claims strptime current_date s days_threshold =
     (if \<bar>days_threshold\<bar> \<le> 999999999 \<and> 0 \<le> current_date - days_threshold * day_us
           \<and> current_date - days_threshold * day_us < datetime_end
      then Inr (sort_key (\<lambda>a. - days_since_rejection a)
                  (concat (map (alerts_of_item strptime current_date
                                  (current_date - days_threshold * day_us))
                             (rejections_cache s))))
      else Inl OverflowError)"
  by (simp add: find_unsubmitted_claims_def timedelta_days_def datetime_minus_def
        and_then_def Let_def)

lemma no_alerts_without_dates:
  assumes "\<forall>e\<in>snd ` set (rejections_cache s). rejection_date e = None"
  shows "concat (map (alerts_of_item strptime current_date threshold_date)
                   (rejections_cache s)) = []"
proof (rule concat_map_empty, rule ballI)
  fix item assume i: "item \<in> set (rejections_cache s)"
  obtain k e where ke: "item = (k, e)" by (cases item)
  then have "e \<in> snd ` set (rejections_cache s)" using i by force
  then have "rejection_date e = None" using assms by auto
  then show "alerts_of_item strptime current_date threshold_date item = []"
    by (simp add: alerts_of_item_def ke)
qed

text \<open>
  Claim C10, as the code has it. No record that \<open>parse\<close> returns has a
  \<open>transaction_date\<close>: the initial transaction has none and no segment processor sets
  one. So in every engine that was built from a new engine only by feeding documents,
  each through \<open>parse\<close> and \<open>add_277ca_rejections\<close>, every cache entry has no rejection
  date, and \<open>find_unsubmitted_claims\<close> returns the empty list for every threshold at
  which the threshold date exists: a threshold of at most 999999999 days in either
  direction, and a threshold date within the years of a \<open>datetime\<close>. At every other
  threshold it raises \<open>OverflowError\<close>.
\<close>

theorem parser_fed_engine_never_alerts:
  "(\<forall>r. parse lib x = Inr r \<longrightarrow>
        (\<forall>t\<in>set (acknowledgments r). transaction_date t = None))
   \<and> (\<forall>e\<in>snd ` set (rejections_cache
                       (foldl (feed_document lib) (new_engine lookback) documents)).
         rejection_date e = None)
   \<and> find_unsubmitted_claims strptime current_date
        (foldl (feed_document lib) (new_engine lookback) documents) days_threshold
       = (if \<bar>days_threshold\<bar> \<le> 999999999 \<and> 0 \<le> current_date - days_threshold * day_us
             \<and> current_date - days_threshold * day_us < datetime_end
          then Inr [] else Inl OverflowError)"
proof -
  have 1: "\<forall>r. parse lib x = Inr r \<longrightarrow>
        (\<forall>t\<in>set (acknowledgments r). transaction_date t = None)"
    using parse_undated by blast
  have 2: "\<forall>e\<in>snd ` set (rejections_cache
                       (foldl (feed_document lib) (new_engine lookback) documents)).
         rejection_date e = None"
    by (rule feed_documents_undated) (simp add: new_engine_def)
  have 3: "find_unsubmitted_claims strptime current_date
        (foldl (feed_document lib) (new_engine lookback) documents) days_threshold
       = (if \<bar>days_threshold\<bar> \<le> 999999999 \<and> 0 \<le> current_date - days_threshold * day_us
             \<and> current_date - days_threshold * day_us < datetime_end
          then Inr [] else Inl OverflowError)"
    by (simp only: threshold_date_cases no_alerts_without_dates[OF 2]) simp
  from 1 2 3 show ?thesis by (intro conjI)
qed

lemma feed_sample: "feed_document sample_lib (new_engine 60) sample_document = sample_engine"
  by code_simp

theorem parser_fed_engine_never_alerts_witness:
  "parse sample_lib sample_document = Inr sample_result
   \<and> transaction_date sample_rejection = None
   \<and> rejections_cache (feed_document sample_lib (new_engine 60) sample_document) \<noteq> []
   \<and> find_unsubmitted_claims sample_strptime (738930 * day_us)
        (feed_document sample_lib (new_engine 60) sample_document) 30 = Inr []"
  using parser_fed_engine_never_alerts
          [of sample_lib sample_document 60 "[sample_document]" sample_strptime
              "738930 * day_us" 30]
  by (simp add: feed_sample parse_sample)
     (simp add: sample_engine_def sample_result_def sample_rejection_def
        init_transaction_def day_us_def datetime_end_def)

text \<open>
  Claim C10 as stated fails: on the engine that the sample document gives, on the 15th
  of February 2024, a threshold of 1000000000 days and a threshold of 800000 days, which
  reaches back before the year 1, raise \<open>OverflowError\<close>.
\<close>

theorem threshold_overflow_counterexample:
  "feed_document sample_lib (new_engine 60) sample_document = sample_engine
   \<and> find_unsubmitted_claims sample_strptime (738930 * day_us) sample_engine 1000000000
       = Inl OverflowError
   \<and> find_unsubmitted_claims sample_strptime (738930 * day_us) sample_engine 800000
       = Inl OverflowError"
  by (simp add: feed_sample)
     (simp add: find_unsubmitted_claims_def timedelta_days_def datetime_minus_def
        and_then_def day_us_def datetime_end_def)

subsection \<open>The severity of an alert\<close>

lemma single_alert:
  assumes "rejections_cache s = [(key, e)]"
    and "\<not> found_in_835 e"
    and "rejection_date e = Some ds" and "ds \<noteq> []"
    and "parse_rejection_date strptime ds = Some rd"
    and "0 \<le> rd" and "current_date < datetime_end"
    and "30 * day_us < current_date - rd"
  shows "find_unsubmitted_claims strptime current_date s 30
         = Inr [\<lparr>severity = (if (current_date - rd) div day_us > 45
                             then ''HIGH'' else ''MEDIUM''),
                 match_key = key,
                 alert_patient_id = rej_patient_id e,
                 alert_patient_name = rej_patient_name e,
                 alert_date_of_service = rej_date_of_service e,
                 alert_billed_amount = rej_billed_amount e,
                 alert_rejection_date = rejection_date e,
                 alert_rejection_reason = rej_rejection_reason e,
                 days_since_rejection = (current_date - rd) div day_us,
                 estimated_revenue_loss = rej_billed_amount e,
                 action_required =
                   ''Review rejection reason and resubmit corrected claim. '' @
                   ''This claim will NEVER appear in 835 until resubmitted.''\<rparr>]"
proof -
  have t: "\<bar>30::int\<bar> \<le> 999999999 \<and> 0 \<le> current_date - 30 * day_us
           \<and> current_date - 30 * day_us < datetime_end"
    using assms(6) assms(7) assms(8) by (simp add: day_us_def)
  have lt: "rd < current_date - 30 * day_us" using assms(8) by simp
  show ?thesis
    by (simp only: threshold_date_cases t if_True assms(1))
       (simp add: alerts_of_item_def assms(2) assms(3) assms(4) assms(5) lt Let_def)
qed

text \<open>
  Claim C4. The cache holds exactly one entry, which no payment has matched and whose
  rejection date is a text that \<open>strptime\<close> reads; the instants are instants of the
  library, from the year 1 to the year 9999. When the current time is 45 days after the
  rejection date (45 whole days, and less than one more), \<open>find_unsubmitted_claims\<close>
  with a threshold of 30 days returns exactly one alert, of severity \<open>MEDIUM\<close>; when it
  is 46 days after it, the one alert has severity \<open>HIGH\<close>. The alert carries the key and
  the fields of the entry and the number of days.
\<close>

theorem severity_at_45_and_46_days:
  assumes "rejections_cache s = [(key, e)]"
    and "\<not> found_in_835 e"
    and "rejection_date e = Some ds" and "ds \<noteq> []"
    and "parse_rejection_date strptime ds = Some rd"
    and "0 \<le> rd" and "current_date < datetime_end"
  shows "((current_date - rd) div day_us = 45 \<longrightarrow>
            (\<exists>a. find_unsubmitted_claims strptime current_date s 30 = Inr [a]
                 \<and> severity a = ''MEDIUM'' \<and> days_since_rejection a = 45
                 \<and> match_key a = key \<and> alert_patient_id a = rej_patient_id e
                 \<and> alert_patient_name a = rej_patient_name e
                 \<and> alert_billed_amount a = rej_billed_amount e
                 \<and> alert_rejection_reason a = rej_rejection_reason e))
       \<and> ((current_date - rd) div day_us = 46 \<longrightarrow>
            (\<exists>a. find_unsubmitted_claims strptime current_date s 30 = Inr [a]
                 \<and> severity a = ''HIGH'' \<and> days_since_rejection a = 46
                 \<and> match_key a = key \<and> alert_patient_id a = rej_patient_id e
                 \<and> alert_patient_name a = rej_patient_name e
                 \<and> alert_billed_amount a = rej_billed_amount e
                 \<and> alert_rejection_reason a = rej_rejection_reason e))"
proof (intro conjI impI)
  assume d: "(current_date - rd) div day_us = 45"
  have "45 * day_us \<le> current_date - rd"
    using d by (simp add: day_us_def)
  then have "30 * day_us < current_date - rd" by (simp add: day_us_def)
  note a = single_alert[OF assms this]
  show "\<exists>a. find_unsubmitted_claims strptime current_date s 30 = Inr [a]
                 \<and> severity a = ''MEDIUM'' \<and> days_since_rejection a = 45
                 \<and> match_key a = key \<and> alert_patient_id a = rej_patient_id e
                 \<and> alert_patient_name a = rej_patient_name e
                 \<and> alert_billed_amount a = rej_billed_amount e
                 \<and> alert_rejection_reason a = rej_rejection_reason e"
    by (simp add: a d)
next
  assume d: "(current_date - rd) div day_us = 46"
  have "46 * day_us \<le> current_date - rd"
    using d by (simp add: day_us_def)
  then have "30 * day_us < current_date - rd" by (simp add: day_us_def)
  note a = single_alert[OF assms this]
  show "\<exists>a. find_unsubmitted_claims strptime current_date s 30 = Inr [a]
                 \<and> severity a = ''HIGH'' \<and> days_since_rejection a = 46
                 \<and> match_key a = key \<and> alert_patient_id a = rej_patient_id e
                 \<and> alert_patient_name a = rej_patient_name e
                 \<and> alert_billed_amount a = rej_billed_amount e
                 \<and> alert_rejection_reason a = rej_rejection_reason e"
    by (simp add: a d)
qed

lemma sample_days:
  "(738930 * day_us - 738885 * day_us) div day_us = 45"
  "(738931 * day_us - 738885 * day_us) div day_us = 46"
  by (simp_all add: day_us_def)

theorem severity_at_45_and_46_days_witness:
  "(\<exists>a. find_unsubmitted_claims sample_strptime (738930 * day_us) dated_engine 30 = Inr [a]
        \<and> severity a = ''MEDIUM'' \<and> days_since_rejection a = 45)
   \<and> (\<exists>a. find_unsubmitted_claims sample_strptime (738931 * day_us) dated_engine 30 = Inr [a]
        \<and> severity a = ''HIGH'' \<and> days_since_rejection a = 46)"
  using severity_at_45_and_46_days
          [of dated_engine "''12345|20231215|150''" dated_entry "''20240101''"
              sample_strptime "738885 * day_us" "738930 * day_us"]
        severity_at_45_and_46_days
          [of dated_engine "''12345|20231215|150''" dated_entry "''20240101''"
              sample_strptime "738885 * day_us" "738931 * day_us"]
  apply (simp add: dated_engine_def dated_entry_def parse_rejection_date_def
           sample_strptime_def sample_days)
  apply (simp add: day_us_def datetime_end_def)
  by blast

subsection \<open>What the two ingestion operations do to the rejections cache\<close>

lemma join_nonempty: "p \<noteq> [] \<Longrightarrow> join sep (p # ps) \<noteq> []"
  by (cases ps) simp_all

lemma create_match_key_nonempty:
  assumes "create_match_key t = Inr (Some k)"
  shows "k \<noteq> []"
proof -
  have f: "finish_key (p # ps) = Some k \<Longrightarrow> p \<noteq> [] \<Longrightarrow> k \<noteq> []" for p ps
    using join_nonempty[of p "''|''" ps] by (auto simp: finish_key_def split: if_splits)
  obtain pid where pid: "patient_id t = Some pid" "pid \<noteq> []"
    using assms by (cases "patient_id t") (auto simp: create_match_key_def Let_def split: if_splits)
  from assms obtain ps where "finish_key (pid # ps) = Some k"
    by (auto simp: create_match_key_def Let_def pid and_then_def
          split: if_splits option.splits sum.splits)
  then show ?thesis using f pid(2) by blast
qed

lemma add_rejection_cache:
  assumes "add_rejection s r = Inr s'"
  shows "payments_cache s' = payments_cache s"
    and "lookback_days s' = lookback_days s"
    and "(create_match_key r = Inr None \<and> rejections_cache s' = rejections_cache s) \<or>
         (\<exists>k. create_match_key r = Inr (Some k) \<and>
              rejections_cache s' = AList.update k (tracked_entry r) (rejections_cache s))"
proof -
  obtain key where key: "create_match_key r = Inr key"
    using assms by (cases "create_match_key r") (simp_all add: add_rejection_def and_then_def)
  show "payments_cache s' = payments_cache s"
    using assms key
    by (auto simp: add_rejection_def and_then_def split: option.splits if_splits)
  show "lookback_days s' = lookback_days s"
    using assms key
    by (auto simp: add_rejection_def and_then_def split: option.splits if_splits)
  show "(create_match_key r = Inr None \<and> rejections_cache s' = rejections_cache s) \<or>
         (\<exists>k. create_match_key r = Inr (Some k) \<and>
              rejections_cache s' = AList.update k (tracked_entry r) (rejections_cache s))"
  proof (cases key)
    case None
    then show ?thesis using assms key by (simp add: add_rejection_def and_then_def)
  next
    case (Some k)
    have "k \<noteq> []" using create_match_key_nonempty key Some by blast
    then show ?thesis
      using assms key Some by (auto simp: add_rejection_def and_then_def tracked_entry_def)
  qed
qed

lemma add_rejection_existing_key:
  assumes "create_match_key r = Inr (Some k)"
  shows "add_rejection s r =
           Inr (s\<lparr>rejections_cache := AList.update k (tracked_entry r) (rejections_cache s)\<rparr>)"
proof -
  have "k \<noteq> []" using create_match_key_nonempty assms by blast
  then show ?thesis
    using assms by (simp add: add_rejection_def and_then_def tracked_entry_def)
qed

lemma add_payment_cache:
  assumes "add_payment s c = Inr s'"
  shows "lookback_days s' = lookback_days s"
    and "rejections_cache s' = rejections_cache s \<or>
         (\<exists>k e. create_match_key c = Inr (Some k) \<and> map_of (rejections_cache s) k = Some e \<and>
              rejections_cache s' =
                AList.update k (e\<lparr>found_in_835 := True, resubmission_date := payment_date c\<rparr>)
                  (rejections_cache s))"
proof -
  obtain key where key: "create_match_key c = Inr key"
    using assms by (cases "create_match_key c") (simp_all add: add_payment_def and_then_def)
  show "lookback_days s' = lookback_days s"
    using assms key
    by (auto simp: add_payment_def and_then_def Let_def split: option.splits if_splits)
  show "rejections_cache s' = rejections_cache s \<or>
         (\<exists>k e. create_match_key c = Inr (Some k) \<and> map_of (rejections_cache s) k = Some e \<and>
              rejections_cache s' =
                AList.update k (e\<lparr>found_in_835 := True, resubmission_date := payment_date c\<rparr>)
                  (rejections_cache s))"
    using assms key
    by (auto simp: add_payment_def and_then_def Let_def split: option.splits if_splits)
qed

subsection \<open>Keys are kept, and kept apart\<close>

lemma update_same_key_twice: "AList.update k v (AList.update k w al) = AList.update k v al"
  by (induction al) auto


lemma add_payment_keys:
  assumes "add_payment s c = Inr s'"
  shows "map fst (rejections_cache s') = map fst (rejections_cache s)"
proof -
  from add_payment_cache(2)[OF assms] show ?thesis
  proof
    assume "rejections_cache s' = rejections_cache s"
    then show ?thesis by simp
  next
    assume "\<exists>k e. create_match_key c = Inr (Some k) \<and> map_of (rejections_cache s) k = Some e \<and>
              rejections_cache s' =
                AList.update k (e\<lparr>found_in_835 := True, resubmission_date := payment_date c\<rparr>)
                  (rejections_cache s)"
    then obtain k e where m: "map_of (rejections_cache s) k = Some e"
        and rc: "rejections_cache s' =
                AList.update k (e\<lparr>found_in_835 := True, resubmission_date := payment_date c\<rparr>)
                  (rejections_cache s)"
      by blast
    have "k \<in> set (map fst (rejections_cache s))"
      using m by (metis map_of_eq_None_iff option.distinct(1) set_map)
    then show ?thesis by (simp add: rc update_keys)
  qed
qed


lemma add_835_payments_keys:
  "map fst (rejections_cache (fst (add_835_payments s cs))) = map fst (rejections_cache s)"
proof (induction cs arbitrary: s)
  case Nil
  show ?case by simp
next
  case (Cons c cs)
  show ?case
  proof (cases "add_payment s c")
    case (Inl e)
    then show ?thesis by simp
  next
    case (Inr s1)
    then show ?thesis using Cons.IH[of s1] add_payment_keys[OF Inr] by simp
  qed
qed

lemma add_rejection_distinct:
  assumes "add_rejection s r = Inr s'" and "distinct (map fst (rejections_cache s))"
  shows "distinct (map fst (rejections_cache s'))"
  using add_rejection_cache(3)[OF assms(1)] assms(2) by (auto simp: distinct_update)

lemma add_277ca_rejections_distinct:
  "distinct (map fst (rejections_cache s)) \<Longrightarrow>
   distinct (map fst (rejections_cache (fst (add_277ca_rejections s rs))))"
proof (induction rs arbitrary: s)
  case Nil
  then show ?case by simp
next
  case (Cons r rs)
  show ?case
  proof (cases "add_rejection s r")
    case (Inl e)
    then show ?thesis using Cons.prems by simp
  next
    case (Inr s1)
    have "distinct (map fst (rejections_cache s1))"
      by (rule add_rejection_distinct[OF Inr Cons.prems])
    then have "distinct (map fst (rejections_cache (fst (add_277ca_rejections s1 rs))))"
      by (rule Cons.IH)
    then show ?thesis using Inr by simp
  qed
qed

lemma engine_step_distinct:
  assumes "distinct (map fst (rejections_cache s))"
  shows "distinct (map fst (rejections_cache (engine_step s call)))"
proof (cases call)
  case (Add_277ca_rejections rs)
  then show ?thesis using add_277ca_rejections_distinct[OF assms] by simp
next
  case (Add_835_payments cs)
  then show ?thesis using assms by (simp add: add_835_payments_keys)
qed

lemma run_calls_distinct:
  "distinct (map fst (rejections_cache s)) \<Longrightarrow>
   distinct (map fst (rejections_cache (run_calls s calls)))"
  unfolding run_calls_def
proof (induction calls arbitrary: s)
  case Nil
  then show ?case by simp
next
  case (Cons call calls)
  have "distinct (map fst (rejections_cache (foldl engine_step (engine_step s call) calls)))"
    by (rule Cons.IH) (rule engine_step_distinct[OF Cons.prems])
  then show ?case by simp
qed

subsection \<open>The revenue at risk\<close>

lemma unmatched_amounts_eq:
  "map (\<lambda>r. amount_or_zero (rej_billed_amount r))
     (filter (\<lambda>r. \<not> found_in_835 r) (map snd al)) = unmatched_amounts al"
proof (induction al)
  case Nil
  show ?case by simp
next
  case (Cons p al)
  obtain k e where p: "p = (k, e)" by (cases p)
  show ?case
    using Cons.IH
    by (cases "rej_billed_amount e") (auto simp: p amount_or_zero_def)
qed

lemma sample_rejection_key: "create_match_key sample_rejection = Inr (Some ''12345|150'')"
  by code_simp


lemma tracked_sample:
  "tracked_entry sample_rejection =
     \<lparr>rejection_date = None, rej_patient_id = Some ''12345'',
      rej_patient_name = Some ''DOE 1'', rej_date_of_service = None,
      rej_billed_amount = Some (Finite (301 / 2)), rej_rejection_reason = None,
      rej_status_code = Some ''21'', rej_trace_number = Some ''T1'',
      found_in_835 = False, resubmission_date = None\<rparr>"
  by (simp add: tracked_entry_def sample_rejection_def init_transaction_def)

text \<open>
  Claim C5. In every state that calls of the two ingestion operations make of a new
  engine, \<open>potential_revenue_at_risk\<close> of the summary is the sum, as \<open>sum\<close> of the library
  adds floats, of the billed amounts of the cache entries whose \<open>found_in_835\<close> is false,
  a missing amount counted as 0; the keys of the cache are distinct, so every key
  contributes one entry; a rejection whose key is in the cache replaces the entry of
  that key, in its place, and leaves the entries of the other keys as they were; and
  adding two rejections of the same key is adding the second alone.
\<close>

theorem revenue_at_risk_counts_each_key_once:
  assumes "s = run_calls (new_engine lookback) calls"
  shows "potential_revenue_at_risk (get_reconciliation_summary lib s)
           = float_sum lib (unmatched_amounts (rejections_cache s))
       \<and> distinct (map fst (rejections_cache s))
       \<and> (create_match_key r = Inr (Some k) \<longrightarrow> k \<in> fst ` set (rejections_cache s) \<longrightarrow>
            (\<exists>s'. add_rejection s r = Inr s'
                \<and> map fst (rejections_cache s') = map fst (rejections_cache s)
                \<and> map_of (rejections_cache s') k = Some (tracked_entry r)
                \<and> (\<forall>k'. k' \<noteq> k \<longrightarrow>
                      map_of (rejections_cache s') k' = map_of (rejections_cache s) k')))
       \<and> (create_match_key r = Inr (Some k) \<longrightarrow> create_match_key r' = Inr (Some k) \<longrightarrow>
            add_277ca_rejections s [r, r'] = add_277ca_rejections s [r'])"
proof (intro conjI impI)
  show "potential_revenue_at_risk (get_reconciliation_summary lib s)
           = float_sum lib (unmatched_amounts (rejections_cache s))"
    by (simp add: get_reconciliation_summary_def Let_def unmatched_amounts_eq)
  show "distinct (map fst (rejections_cache s))"
    unfolding assms by (rule run_calls_distinct) (simp add: new_engine_def)
next
  assume key: "create_match_key r = Inr (Some k)"
    and k: "k \<in> fst ` set (rejections_cache s)"
  have "k \<in> set (map fst (rejections_cache s))" using k by simp
  then have "map fst (AList.update k (tracked_entry r) (rejections_cache s))
               = map fst (rejections_cache s)"
    by (simp add: update_keys)
  then show "\<exists>s'. add_rejection s r = Inr s'
                \<and> map fst (rejections_cache s') = map fst (rejections_cache s)
                \<and> map_of (rejections_cache s') k = Some (tracked_entry r)
                \<and> (\<forall>k'. k' \<noteq> k \<longrightarrow>
                      map_of (rejections_cache s') k' = map_of (rejections_cache s) k')"
    by (simp add: add_rejection_existing_key[OF key] update_conv')
next
  assume key: "create_match_key r = Inr (Some k)"
    and key': "create_match_key r' = Inr (Some k)"
  show "add_277ca_rejections s [r, r'] = add_277ca_rejections s [r']"
    by (simp add: add_rejection_existing_key[OF key] add_rejection_existing_key[OF key']
          update_same_key_twice)
qed

lemma run_sample_twice:
  "run_calls (new_engine 60) [Add_277ca_rejections [sample_rejection, sample_rejection]]
     = sample_engine"
  by (simp add: run_calls_def add_rejection_existing_key[OF sample_rejection_key]
        update_same_key_twice tracked_sample new_engine_def sample_engine_def)

theorem revenue_at_risk_counts_each_key_once_witness:
  "sample_engine
     = run_calls (new_engine 60) [Add_277ca_rejections [sample_rejection, sample_rejection]]
   \<and> length (rejections_cache sample_engine) = 1
   \<and> potential_revenue_at_risk (get_reconciliation_summary sample_lib sample_engine)
       = Finite (301 / 2)
   \<and> add_rejection sample_engine sample_rejection = Inr sample_engine"
  using revenue_at_risk_counts_each_key_once
          [of sample_engine 60 "[Add_277ca_rejections [sample_rejection, sample_rejection]]"
              sample_lib sample_rejection "''12345|150''" sample_rejection]
  by (simp add: run_sample_twice sample_rejection_key)
     (simp add: sample_engine_def sample_lib_def
        add_rejection_existing_key[OF sample_rejection_key] tracked_sample)

subsection \<open>Who creates and who changes a cache entry\<close>










end
